theory Spec2Isabelle
  imports Main
begin

section \<open>Python values and strings\<close>

text \<open>
  Strings are ASCII byte strings. \<open>nl\<close> is the escape \<^verbatim>\<open>\n\<close> of the source's
  string literals.
\<close>

definition nl :: string where
  "nl = [CHR 0x0A]"

text \<open>
  \<^verbatim>\<open>str.capitalize()\<close>: the first character in upper case, every other character in
  lower case. Characters outside the ASCII letters are left as they are.
\<close>

definition upper_char :: "char \<Rightarrow> char" where
  "upper_char c =
     (case map_of (zip ''abcdefghijklmnopqrstuvwxyz'' ''ABCDEFGHIJKLMNOPQRSTUVWXYZ'') c of
        Some u \<Rightarrow> u
      | None \<Rightarrow> c)"

definition lower_char :: "char \<Rightarrow> char" where
  "lower_char c =
     (case map_of (zip ''ABCDEFGHIJKLMNOPQRSTUVWXYZ'' ''abcdefghijklmnopqrstuvwxyz'') c of
        Some l \<Rightarrow> l
      | None \<Rightarrow> c)"

fun capitalize :: "string \<Rightarrow> string" where
  "capitalize [] = []"
| "capitalize (c # cs) = upper_char c # map lower_char cs"

text \<open>\<^verbatim>\<open>sep.join(xs)\<close> on a list of strings.\<close>

fun join :: "string \<Rightarrow> string list \<Rightarrow> string" where
  "join sep [] = []"
| "join sep [x] = x"
| "join sep (x # y # ys) = x @ sep @ join sep (y # ys)"

text \<open>\<^verbatim>\<open>str(user_id)\<close> on a Python int: decimal digits, with a minus sign below zero.\<close>

fun str_nat :: "nat \<Rightarrow> string" where
  "str_nat n =
     (if n < 10 then [''0123456789'' ! n]
      else str_nat (n div 10) @ [''0123456789'' ! (n mod 10)])"

declare str_nat.simps [simp del]

definition str :: "int \<Rightarrow> string" where
  "str i = (if i < 0 then CHR ''-'' # str_nat (nat (- i)) else str_nat (nat i))"

text \<open>
  The value of \<^verbatim>\<open>query.data\<close> and of \<^verbatim>\<open>context.user_data['network']\<close>: a string, or
  \<^verbatim>\<open>None\<close> (the transport's callback query carries its data as an optional string).
\<close>

datatype pyval = PyNone | PyStr string

text \<open>Python truthiness, as \<^verbatim>\<open>if not network\<close> tests it.\<close>

fun truthy :: "pyval \<Rightarrow> bool" where
  "truthy PyNone = False"
| "truthy (PyStr s) = (s \<noteq> [])"

section \<open>Dictionaries\<close>

text \<open>
  A user's record is a Python dict from network name to the list of addresses. A dict
  keeps its keys in insertion order, and \<^verbatim>\<open>status\<close> iterates over \<^verbatim>\<open>items()\<close>, so the
  record is an association list; a lookup finds the first entry of a key.
\<close>

type_synonym user_record = "(string \<times> string list) list"

text \<open>\<^verbatim>\<open>d[k] = v\<close>: an existing key keeps its place, a new key goes to the end.\<close>

fun dict_set :: "('k \<times> 'v) list \<Rightarrow> 'k \<Rightarrow> 'v \<Rightarrow> ('k \<times> 'v) list" where
  "dict_set [] k v = [(k, v)]"
| "dict_set ((k', v') # d) k v =
     (if k' = k then (k, v) # d else (k', v') # dict_set d k v)"

text \<open>
  \<^verbatim>\<open>d.setdefault(k, default)\<close>: returns the value of \<open>k\<close>, inserting the default first
  when the key is missing. The result is the dict after the call and the value returned.
\<close>

definition setdefault :: "('k \<times> 'v) list \<Rightarrow> 'k \<Rightarrow> 'v \<Rightarrow> ('k \<times> 'v) list \<times> 'v" where
  "setdefault d k dflt =
     (case map_of d k of
        Some v \<Rightarrow> (d, v)
      | None \<Rightarrow> (dict_set d k dflt, dflt))"

text \<open>
  \<^verbatim>\<open>user_data.setdefault(network, []).append(contract_address)\<close>: the list returned by
  \<open>setdefault\<close> is the object stored in the dict, so appending to it changes the entry.
\<close>

definition setdefault_append :: "user_record \<Rightarrow> string \<Rightarrow> string \<Rightarrow> user_record" where
  "setdefault_append d network contract_address =
     (case setdefault d network [] of
        (d', contracts) \<Rightarrow> dict_set d' network (contracts @ [contract_address]))"

section \<open>The persistence backend\<close>

text \<open>
  The database reference \<^verbatim>\<open>ref = db.reference("/users")\<close>; its children are addressed by
  \<^verbatim>\<open>str(user_id)\<close>.
\<close>

type_synonym store = "string \<rightharpoonup> user_record"

text \<open>
  Modelled from the spec: the persistence backend itself (the database client behind
  \<^verbatim>\<open>ref.child(key).get()\<close>, \<^verbatim>\<open>.set(value)\<close> and \<^verbatim>\<open>.delete()\<close>) is an external service that
  is not in the source. Its access contract is the spec's: read returns the full current
  mapping or an absent marker; write is a full overwrite of the value at that key; delete
  removes the key entirely and is safe to call when the key is absent.
\<close>

definition db_get :: "store \<Rightarrow> string \<Rightarrow> user_record option" where
  "db_get s key = s key"

definition db_set :: "store \<Rightarrow> string \<Rightarrow> user_record \<Rightarrow> store" where
  "db_set s key val = s(key \<mapsto> val)"

definition db_delete :: "store \<Rightarrow> string \<Rightarrow> store" where
  "db_delete s key = s(key := None)"

section \<open>Handlers\<close>

text \<open>
  What a handler can see and change: the database under \<^verbatim>\<open>/users\<close> and the dict
  \<^verbatim>\<open>context.user_data\<close> of the conversation.
\<close>

record env =
  users :: store
  user_data :: "string \<rightharpoonup> pyval"

text \<open>The calls a handler makes on the messaging transport, in order.\<close>

datatype action =
    ReplyText string
  | ReplyTextMarkup string "(string \<times> string) list list"
  | Answer
  | EditMessageText string

datatype fault = AttributeError

text \<open>
  The outcome of one handler call: the state it leaves, the transport calls it made, and
  the exception that ended it, if any.
\<close>

record outcome =
  state :: env
  sent :: "action list"
  raised :: "fault option"

text \<open>
  \<^verbatim>\<open>update.message\<close> as a handler sees it: the text of the message, or \<^verbatim>\<open>None\<close> when the
  update carries no new message. The command and message handlers of \<^verbatim>\<open>main\<close> are
  registered without a filter on the kind of update, so the transport also calls them for
  an edited message, where \<^verbatim>\<open>update.message\<close> is \<^verbatim>\<open>None\<close> (the text is in
  \<^verbatim>\<open>update.edited_message\<close>) while \<^verbatim>\<open>update.effective_user\<close> is set as usual.
\<close>

type_synonym message = "string option"

text \<open>
  \<^verbatim>\<open>update.message.reply_text(...)\<close> as the last statement of a handler that has reached the
  state \<open>e\<close>: the attribute access raises when \<^verbatim>\<open>update.message\<close> is \<^verbatim>\<open>None\<close>, and nothing is
  sent.
\<close>

definition reply_text :: "message \<Rightarrow> env \<Rightarrow> action \<Rightarrow> outcome" where
  "reply_text message e a =
     (case message of
        None \<Rightarrow> \<lparr>state = e, sent = [], raised = Some AttributeError\<rparr>
      | Some _ \<Rightarrow> \<lparr>state = e, sent = [a], raised = None\<rparr>)"

definition start :: "message \<Rightarrow> env \<Rightarrow> outcome" where
  "start message e =
     reply_text message e
       (ReplyText (''Welcome to the Blockchain Tracker Bot! Use /track to monitor transactions. ''
                   @ ''Use /help for other commands.''))"

definition help_command :: "message \<Rightarrow> env \<Rightarrow> outcome" where
  "help_command message e =
     reply_text message e
       (ReplyText (''/start - Start the bot'' @ nl
                   @ ''/track - Start tracking a contract address'' @ nl
                   @ ''/status - View tracked addresses'' @ nl
                   @ ''/stop - Stop tracking a contract'' @ nl
                   @ ''/help - Show help message''))"

text \<open>The inline keyboard: rows of buttons, each a label and its \<^verbatim>\<open>callback_data\<close>.\<close>

definition track :: "message \<Rightarrow> env \<Rightarrow> outcome" where
  "track message e =
     (let keyboard = [[(''Solana'', ''solana''), (''Sui'', ''sui'')]]
      in reply_text message e
           (ReplyTextMarkup ''Which network would you like to track?'' keyboard))"

text \<open>
  \<^verbatim>\<open>handle_network_selection\<close>: the assignment to \<^verbatim>\<open>user_data['network']\<close> comes before
  \<^verbatim>\<open>network.capitalize()\<close>, which raises when the data is \<^verbatim>\<open>None\<close>.
\<close>

definition handle_network_selection :: "pyval \<Rightarrow> env \<Rightarrow> outcome" where
  "handle_network_selection network e =
     (let e' = e\<lparr>user_data := (user_data e)(''network'' \<mapsto> network)\<rparr>
      in case network of
           PyNone \<Rightarrow> \<lparr>state = e', sent = [Answer], raised = Some AttributeError\<rparr>
         | PyStr s \<Rightarrow>
             \<lparr>state = e',
              sent = [Answer,
                      EditMessageText (''You selected '' @ capitalize s
                        @ ''. Please send the contract address you want to track.'')],
              raised = None\<rparr>)"

text \<open>\<^verbatim>\<open>context.user_data.get('network')\<close>: \<^verbatim>\<open>None\<close> for a missing key.\<close>

definition get_network :: "(string \<rightharpoonup> pyval) \<Rightarrow> pyval" where
  "get_network ud = (case ud ''network'' of None \<Rightarrow> PyNone | Some v \<Rightarrow> v)"

text \<open>\<^verbatim>\<open>ref.child(str(user_id)).get() or {}\<close>: a missing or empty value gives a new dict.\<close>

definition get_or_empty :: "store \<Rightarrow> string \<Rightarrow> user_record" where
  "get_or_empty s key =
     (case db_get s key of
        None \<Rightarrow> []
      | Some r \<Rightarrow> if r = [] then [] else r)"

definition select_first :: string where
  "select_first = ''Please select a network first using /track.''"

text \<open>
  \<^verbatim>\<open>handle_contract_address\<close>: its first statement reads \<^verbatim>\<open>update.message.text\<close>, which
  raises when \<^verbatim>\<open>update.message\<close> is \<^verbatim>\<open>None\<close>, before the guard and before any reply.
\<close>

definition handle_contract_address :: "int \<Rightarrow> message \<Rightarrow> env \<Rightarrow> outcome" where
  "handle_contract_address user_id message e =
     (case message of
        None \<Rightarrow> \<lparr>state = e, sent = [], raised = Some AttributeError\<rparr>
      | Some contract_address \<Rightarrow>
         (case get_network (user_data e) of
            PyNone \<Rightarrow> reply_text message e (ReplyText select_first)
          | PyStr network \<Rightarrow>
              if network = [] then reply_text message e (ReplyText select_first)
              else
                (let data = get_or_empty (users e) (str user_id);
                     data' = setdefault_append data network contract_address
                 in reply_text message (e\<lparr>users := db_set (users e) (str user_id) data'\<rparr>)
                      (ReplyText (''Started tracking contract address: '' @ contract_address
                                  @ '' on '' @ capitalize network @ ''.'')))))"

text \<open>The loop of \<^verbatim>\<open>status\<close> over \<^verbatim>\<open>user_data.items()\<close>, with the message built so far.\<close>

fun status_loop :: "user_record \<Rightarrow> string \<Rightarrow> string" where
  "status_loop [] message = message"
| "status_loop ((network, contracts) # rest) message =
     status_loop rest
       ((message @ (nl @ capitalize network @ '':'' @ nl)) @ (join nl contracts @ nl))"

definition not_tracking :: string where
  "not_tracking = ''You are not tracking any contracts.''"

definition status :: "int \<Rightarrow> message \<Rightarrow> env \<Rightarrow> outcome" where
  "status user_id message e =
     (case db_get (users e) (str user_id) of
        None \<Rightarrow> reply_text message e (ReplyText not_tracking)
      | Some data \<Rightarrow>
          if data = [] then reply_text message e (ReplyText not_tracking)
          else reply_text message e
                 (ReplyText (status_loop data (''Currently tracked contracts:'' @ nl))))"

text \<open>\<^verbatim>\<open>stop\<close>: the deletion comes before the reply.\<close>

definition stop :: "int \<Rightarrow> message \<Rightarrow> env \<Rightarrow> outcome" where
  "stop user_id message e =
     reply_text message (e\<lparr>users := db_delete (users e) (str user_id)\<rparr>)
       (ReplyText ''Stopped tracking all contracts.'')"

section \<open>Dispatch\<close>

text \<open>
  An inbound update, as the transport classifies it for the handlers registered in
  \<^verbatim>\<open>main\<close>: a command (its name without the slash), a button callback with its data, a
  text message that is not a command, and the edited forms of a command and of a text
  message, which reach the same handlers with \<^verbatim>\<open>update.message\<close> set to \<^verbatim>\<open>None\<close>.
\<close>

datatype update =
    Command string
  | CallbackQuery pyval
  | TextMessage string
  | EditedCommand string
  | EditedMessage string

text \<open>The command handlers registered in \<^verbatim>\<open>main\<close>; a command without a handler does nothing.\<close>

definition command_handler :: "string \<Rightarrow> int \<Rightarrow> message \<Rightarrow> env \<Rightarrow> outcome" where
  "command_handler c user_id message e =
     (if c = ''start'' then start message e
      else if c = ''help'' then help_command message e
      else if c = ''track'' then track message e
      else if c = ''status'' then status user_id message e
      else if c = ''stop'' then stop user_id message e
      else \<lparr>state = e, sent = [], raised = None\<rparr>)"

definition dispatch :: "int \<Rightarrow> update \<Rightarrow> env \<Rightarrow> outcome" where
  "dispatch user_id u e =
     (case u of
        Command c \<Rightarrow> command_handler c user_id (Some (CHR ''/'' # c)) e
      | CallbackQuery d \<Rightarrow> handle_network_selection d e
      | TextMessage t \<Rightarrow> handle_contract_address user_id (Some t) e
      | EditedCommand c \<Rightarrow> command_handler c user_id None e
      | EditedMessage t \<Rightarrow> handle_contract_address user_id None e)"

text \<open>
  The updates of one user handled one after the other. An exception ends the handler of
  that update only; the next update finds the state the handler left.
\<close>

fun run :: "int \<Rightarrow> update list \<Rightarrow> env \<Rightarrow> env" where
  "run user_id [] e = e"
| "run user_id (u # us) e = run user_id us (state (dispatch user_id u e))"

text \<open>
  Whether an update is a successful submit-address action in a state: a text message
  that passes the guard of \<^verbatim>\<open>handle_contract_address\<close>.
\<close>

fun is_submit :: "update \<Rightarrow> env \<Rightarrow> bool" where
  "is_submit (TextMessage t) e = truthy (get_network (user_data e))"
| "is_submit _ e = False"

text \<open>The number of successful submit-address actions in a run.\<close>

fun submits :: "int \<Rightarrow> update list \<Rightarrow> env \<Rightarrow> nat" where
  "submits user_id [] e = 0"
| "submits user_id (u # us) e =
     (if is_submit u e then 1 else 0) + submits user_id us (state (dispatch user_id u e))"

section \<open>Derived notions used in the statements\<close>

text \<open>The addresses a user tracks on one network: empty without a record or without the key.\<close>

definition tracked :: "store \<Rightarrow> string \<Rightarrow> string \<Rightarrow> string list" where
  "tracked s key network =
     (case db_get s key of
        None \<Rightarrow> []
      | Some r \<Rightarrow> (case map_of r network of None \<Rightarrow> [] | Some xs \<Rightarrow> xs))"

text \<open>
  The listing as the spec words it, to be compared with the loop of \<^verbatim>\<open>status\<close>: each
  network name followed by its addresses, in the order stored. The block of one network
  is an empty line, the capitalised name with a colon, and the addresses separated by
  newlines with a newline at the end.
\<close>

definition spec_entry :: "string \<times> string list \<Rightarrow> string" where
  "spec_entry = (\<lambda>(network, addresses).
     nl @ capitalize network @ '':'' @ nl @ join nl addresses @ nl)"

definition spec_listing :: "user_record \<Rightarrow> string" where
  "spec_listing r = ''Currently tracked contracts:'' @ nl @ concat (map spec_entry r)"

subsection \<open>Concrete states\<close>

definition env0 :: env where
  "env0 = \<lparr>users = Map.empty, user_data = Map.empty\<rparr>"

definition env_selected :: env where
  "env_selected = \<lparr>users = Map.empty, user_data = [''network'' \<mapsto> PyStr ''solana'']\<rparr>"

definition env_tracking :: env where
  "env_tracking =
     \<lparr>users = [''7'' \<mapsto> [(''solana'', [''ABC123'']), (''sui'', [''XYZ789''])]],
      user_data = [''network'' \<mapsto> PyStr ''sui'']\<rparr>"

definition env_empty_record2 :: env where
  "env_empty_record2 =
     \<lparr>users = [''42'' \<mapsto> []], user_data = [''network'' \<mapsto> PyStr ''sui'']\<rparr>"

section \<open>Dictionary lemmas\<close>

lemma str_7: "str 7 = ''7''"
  by (simp add: str_def str_nat.simps)

lemma str_42: "str 42 = ''42''"
  by (simp add: str_def str_nat.simps)

lemma map_of_dict_set: "map_of (dict_set d k v) = (map_of d)(k \<mapsto> v)"
  by (induction d) (auto simp: fun_eq_iff)

lemma dict_set_absent: "k \<notin> fst ` set d \<Longrightarrow> dict_set d k v = d @ [(k, v)]"
  by (induction d) auto

lemma dict_set_last: "k \<notin> fst ` set d \<Longrightarrow> dict_set (d @ [(k, w)]) k v = d @ [(k, v)]"
  by (induction d) auto

lemma setdefault_append_absent:
  assumes "k \<notin> fst ` set d"
  shows "setdefault_append d k a = d @ [(k, [a])]"
proof -
  from assms have "map_of d k = None"
    by (simp add: map_of_eq_None_iff)
  with assms show ?thesis
    by (simp add: setdefault_append_def setdefault_def dict_set_absent dict_set_last)
qed

lemma setdefault_append_last:
  assumes "k \<notin> fst ` set d"
  shows "setdefault_append (d @ [(k, xs)]) k a = d @ [(k, xs @ [a])]"
proof -
  from assms have "map_of d k = None"
    by (simp add: map_of_eq_None_iff)
  then have "map_of (d @ [(k, xs)]) k = Some xs"
    by (simp add: map_add_def)
  with assms show ?thesis
    by (simp add: setdefault_append_def setdefault_def dict_set_last)
qed

lemma map_of_setdefault_append:
  "map_of (setdefault_append d k a) =
     (map_of d)(k \<mapsto> (case map_of d k of None \<Rightarrow> [] | Some xs \<Rightarrow> xs) @ [a])"
  by (auto simp: setdefault_append_def setdefault_def map_of_dict_set split: option.splits)

lemma foldl_append_last:
  "k \<notin> fst ` set d \<Longrightarrow>
   foldl (\<lambda>r a. setdefault_append r k a) (d @ [(k, xs)]) as = d @ [(k, xs @ as)]"
  by (induction as arbitrary: xs) (simp_all add: setdefault_append_last)

lemma foldl_append_absent:
  "k \<notin> fst ` set d \<Longrightarrow> as \<noteq> [] \<Longrightarrow>
   foldl (\<lambda>r a. setdefault_append r k a) d as = d @ [(k, as)]"
  by (cases as) (simp_all add: setdefault_append_absent foldl_append_last)

lemma get_or_empty_simps:
  "db_get s key = None \<Longrightarrow> get_or_empty s key = []"
  "db_get s key = Some r \<Longrightarrow> get_or_empty s key = r"
  by (simp_all add: get_or_empty_def)

lemma status_loop_eq: "status_loop r message = message @ concat (map spec_entry r)"
  by (induction r message rule: status_loop.induct) (simp_all add: spec_entry_def)

lemma join_lines: "cs \<noteq> [] \<Longrightarrow> join nl cs @ nl = concat (map (\<lambda>c. c @ nl) cs)"
  by (induction nl cs rule: join.induct) simp_all

section \<open>Handler lemmas\<close>

lemma reply_text_Some [simp]:
  "reply_text (Some m) e a = \<lparr>state = e, sent = [a], raised = None\<rparr>"
  by (simp add: reply_text_def)

lemma reply_text_None [simp]:
  "reply_text None e a = \<lparr>state = e, sent = [], raised = Some AttributeError\<rparr>"
  by (simp add: reply_text_def)

lemma state_reply_text [simp]: "state (reply_text message e a) = e"
  by (cases message) simp_all

lemma handle_contract_address_edited:
  "handle_contract_address uid None e = \<lparr>state = e, sent = [], raised = Some AttributeError\<rparr>"
  by (simp add: handle_contract_address_def)

lemma handle_contract_address_guard:
  "\<not> truthy (get_network (user_data e)) \<Longrightarrow>
   handle_contract_address uid (Some a) e =
     \<lparr>state = e, sent = [ReplyText select_first], raised = None\<rparr>"
  by (cases "get_network (user_data e)") (simp_all add: handle_contract_address_def)

lemma handle_contract_address_submit:
  "get_network (user_data e) = PyStr n \<Longrightarrow> n \<noteq> [] \<Longrightarrow>
   handle_contract_address uid (Some a) e =
     \<lparr>state = e\<lparr>users := db_set (users e) (str uid)
                  (setdefault_append (get_or_empty (users e) (str uid)) n a)\<rparr>,
      sent = [ReplyText (''Started tracking contract address: '' @ a @ '' on ''
                         @ capitalize n @ ''.'')],
      raised = None\<rparr>"
  by (simp add: handle_contract_address_def Let_def)

lemma handle_network_selection_state:
  "state (handle_network_selection d e) = e\<lparr>user_data := (user_data e)(''network'' \<mapsto> d)\<rparr>"
  by (cases d) (simp_all add: handle_network_selection_def Let_def)

lemma get_network_selected:
  "get_network (user_data (state (handle_network_selection d e))) = d"
  by (simp add: handle_network_selection_state get_network_def)

lemma tracked_selection:
  "tracked (users (state (handle_network_selection d e))) key n = tracked (users e) key n"
  by (simp add: handle_network_selection_state tracked_def)

lemma tracked_submit:
  assumes "get_network (user_data e) = PyStr n" and "n \<noteq> []"
  shows "\<exists>r. db_get (users (state (handle_contract_address uid (Some a) e))) (str uid) = Some r \<and>
             map_of r n = Some (tracked (users e) (str uid) n @ [a])"
    and "tracked (users (state (handle_contract_address uid (Some a) e))) (str uid) n =
           tracked (users e) (str uid) n @ [a]"
    and "user_data (state (handle_contract_address uid (Some a) e)) = user_data e"
proof -
  have "(case map_of (get_or_empty (users e) (str uid)) n of None \<Rightarrow> [] | Some xs \<Rightarrow> xs) =
          tracked (users e) (str uid) n"
    by (simp add: tracked_def get_or_empty_def split: option.splits)
  then have look: "map_of (setdefault_append (get_or_empty (users e) (str uid)) n a) n =
          Some (tracked (users e) (str uid) n @ [a])"
    by (simp add: map_of_setdefault_append)
  from assms have st: "state (handle_contract_address uid (Some a) e) =
      e\<lparr>users := db_set (users e) (str uid)
                   (setdefault_append (get_or_empty (users e) (str uid)) n a)\<rparr>"
    by (simp add: handle_contract_address_submit)
  from look show "\<exists>r. db_get (users (state (handle_contract_address uid (Some a) e))) (str uid) = Some r \<and>
             map_of r n = Some (tracked (users e) (str uid) n @ [a])"
    by (simp add: st db_get_def db_set_def)
  from look show "tracked (users (state (handle_contract_address uid (Some a) e))) (str uid) n =
           tracked (users e) (str uid) n @ [a]"
    by (simp add: st tracked_def db_get_def db_set_def)
  show "user_data (state (handle_contract_address uid (Some a) e)) = user_data e"
    by (simp add: st)
qed

text \<open>The state a command leaves: \<^verbatim>\<open>stop\<close> deletes the user's key, the others change nothing.\<close>

lemma state_command_handler:
  "state (command_handler c uid message e) =
     (if c = ''stop'' then e\<lparr>users := db_delete (users e) (str uid)\<rparr> else e)"
  by (simp add: command_handler_def start_def help_command_def track_def status_def stop_def
      split: option.splits)

section \<open>Runs of one conversation\<close>

lemma run_append: "run uid (us @ vs) e = run uid vs (run uid us e)"
  by (induction us arbitrary: e) simp_all

lemma run_texts:
  assumes "get_network (user_data e) = PyStr n" and "n \<noteq> []"
  shows "user_data (run uid (map TextMessage as) e) = user_data e \<and>
         users (run uid (map TextMessage as) e) =
           (if as = [] then users e
            else db_set (users e) (str uid)
                   (foldl (\<lambda>r a. setdefault_append r n a) (get_or_empty (users e) (str uid)) as))"
  using assms
proof (induction as arbitrary: e)
  case Nil
  then show ?case by simp
next
  case (Cons a as)
  let ?e1 = "state (dispatch uid (TextMessage a) e)"
  let ?r1 = "setdefault_append (get_or_empty (users e) (str uid)) n a"
  from Cons.prems have e1: "?e1 = e\<lparr>users := db_set (users e) (str uid) ?r1\<rparr>"
    by (simp add: dispatch_def handle_contract_address_submit)
  then have ud: "get_network (user_data ?e1) = PyStr n"
    using Cons.prems by simp
  have goe: "get_or_empty (users ?e1) (str uid) = ?r1"
    by (simp add: e1 get_or_empty_def db_get_def db_set_def)
  have over: "db_set (users ?e1) (str uid) r = db_set (users e) (str uid) r" for r
    by (simp add: e1 db_set_def)
  from Cons.IH [OF ud \<open>n \<noteq> []\<close>] show ?case
    by (simp add: goe over) (simp add: e1)
qed

lemma run_callback_texts:
  assumes "n \<noteq> []" and "as \<noteq> []"
  shows "run uid (CallbackQuery (PyStr n) # map TextMessage as) e =
           \<lparr>users = db_set (users e) (str uid)
                      (foldl (\<lambda>r a. setdefault_append r n a) (get_or_empty (users e) (str uid)) as),
            user_data = (user_data e)(''network'' \<mapsto> PyStr n)\<rparr>"
proof -
  let ?e1 = "state (handle_network_selection (PyStr n) e)"
  have sel: "get_network (user_data ?e1) = PyStr n"
    by (rule get_network_selected)
  have e1: "?e1 = e\<lparr>user_data := (user_data e)(''network'' \<mapsto> PyStr n)\<rparr>"
    by (rule handle_network_selection_state)
  have "run uid (CallbackQuery (PyStr n) # map TextMessage as) e = run uid (map TextMessage as) ?e1"
    by (simp add: dispatch_def)
  moreover from run_texts [OF sel \<open>n \<noteq> []\<close>, of uid as] \<open>as \<noteq> []\<close>
  have "user_data (run uid (map TextMessage as) ?e1) = user_data ?e1"
    and "users (run uid (map TextMessage as) ?e1) =
           db_set (users ?e1) (str uid)
             (foldl (\<lambda>r a. setdefault_append r n a) (get_or_empty (users ?e1) (str uid)) as)"
    by simp_all
  ultimately show ?thesis
    by (simp add: e1)
qed

text \<open>
  Two rounds of selection and submission from a state without a record. When both rounds
  choose the same network the second round extends the one entry.
\<close>

lemma run_two_rounds:
  assumes "db_get (users e) (str uid) = None"
    and "n1 \<noteq> []" and "n2 \<noteq> []" and "as \<noteq> []" and "bs \<noteq> []"
  shows "db_get (users (run uid (CallbackQuery (PyStr n1) # map TextMessage as
                                  @ CallbackQuery (PyStr n2) # map TextMessage bs) e)) (str uid) =
           Some (if n1 = n2 then [(n1, as @ bs)] else [(n1, as), (n2, bs)])"
proof -
  let ?e1 = "run uid (CallbackQuery (PyStr n1) # map TextMessage as) e"
  have first: "foldl (\<lambda>r a. setdefault_append r n1 a) [] as = [(n1, as)]"
    using foldl_append_absent [of n1 "[]" as] \<open>as \<noteq> []\<close> by simp
  have e1: "users ?e1 = db_set (users e) (str uid) [(n1, as)]"
    using assms(1) by (simp only: run_callback_texts [OF \<open>n1 \<noteq> []\<close> \<open>as \<noteq> []\<close>]
        get_or_empty_simps first env.simps)
  then have goe: "get_or_empty (users ?e1) (str uid) = [(n1, as)]"
    by (simp add: get_or_empty_def db_get_def db_set_def)
  have second: "foldl (\<lambda>r a. setdefault_append r n2 a) [(n1, as)] bs =
                  (if n1 = n2 then [(n1, as @ bs)] else [(n1, as), (n2, bs)])"
    using foldl_append_last [of n1 "[]" as bs] foldl_append_absent [of n2 "[(n1, as)]" bs] \<open>bs \<noteq> []\<close>
    by auto
  have "run uid (CallbackQuery (PyStr n1) # map TextMessage as
                  @ CallbackQuery (PyStr n2) # map TextMessage bs) e =
        run uid (CallbackQuery (PyStr n2) # map TextMessage bs) ?e1"
    using run_append [of uid "CallbackQuery (PyStr n1) # map TextMessage as"] by simp
  then show ?thesis
    by (simp only: run_callback_texts [OF \<open>n2 \<noteq> []\<close> \<open>bs \<noteq> []\<close>] goe second env.simps)
      (simp add: db_get_def db_set_def)
qed

text \<open>A handler call that makes a record appear is a successful submission of that user.\<close>

lemma dispatch_creates:
  assumes "db_get (users e) k = None"
    and "db_get (users (state (dispatch uid u e))) k \<noteq> None"
  shows "is_submit u e \<and> k = str uid"
proof (cases u)
  case (Command c)
  with assms show ?thesis
    by (auto simp: dispatch_def state_command_handler db_get_def db_delete_def split: if_splits)
next
  case (CallbackQuery d)
  with assms show ?thesis
    by (simp add: dispatch_def handle_network_selection_state)
next
  case (TextMessage t)
  show ?thesis
  proof (cases "truthy (get_network (user_data e))")
    case True
    then obtain n where n: "get_network (user_data e) = PyStr n" "n \<noteq> []"
      by (cases "get_network (user_data e)") simp_all
    with assms TextMessage show ?thesis
      by (auto simp: dispatch_def handle_contract_address_submit db_get_def db_set_def
          split: if_splits)
  next
    case False
    with assms TextMessage show ?thesis
      by (simp add: dispatch_def handle_contract_address_guard)
  qed
next
  case (EditedCommand c)
  with assms show ?thesis
    by (auto simp: dispatch_def state_command_handler db_get_def db_delete_def split: if_splits)
next
  case (EditedMessage t)
  with assms show ?thesis
    by (simp add: dispatch_def handle_contract_address_edited)
qed

lemma run_creates:
  "db_get (users e) k = None \<Longrightarrow> db_get (users (run uid us e)) k \<noteq> None \<Longrightarrow>
   0 < submits uid us e \<and> k = str uid"
proof (induction us arbitrary: e)
  case Nil
  then show ?case by simp
next
  case (Cons u us)
  show ?case
  proof (cases "db_get (users (state (dispatch uid u e))) k = None")
    case True
    with Cons.IH [of "state (dispatch uid u e)"] Cons.prems(2) show ?thesis
      by simp
  next
    case False
    with dispatch_creates [OF Cons.prems(1)] show ?thesis
      by simp
  qed
qed

text \<open>
  No handler writes an empty mapping: a submission writes a record with at least one
  entry, and \<^verbatim>\<open>stop\<close> removes the key. So a run that starts without empty records ends
  without them.
\<close>

lemma setdefault_append_nonempty: "setdefault_append d k a \<noteq> []"
  by (cases d) (auto simp: setdefault_append_def setdefault_def split: option.splits)

lemma dispatch_no_empty_record:
  assumes "db_get (users e) k \<noteq> Some []"
  shows "db_get (users (state (dispatch uid u e))) k \<noteq> Some []"
proof (cases u)
  case (Command c)
  with assms show ?thesis
    by (simp add: dispatch_def state_command_handler db_get_def db_delete_def)
next
  case (CallbackQuery d)
  with assms show ?thesis
    by (simp add: dispatch_def handle_network_selection_state)
next
  case (TextMessage t)
  show ?thesis
  proof (cases "truthy (get_network (user_data e))")
    case True
    then obtain n where n: "get_network (user_data e) = PyStr n" "n \<noteq> []"
      by (cases "get_network (user_data e)") simp_all
    with assms TextMessage show ?thesis
      by (simp add: dispatch_def handle_contract_address_submit db_get_def db_set_def
          setdefault_append_nonempty)
  next
    case False
    with assms TextMessage show ?thesis
      by (simp add: dispatch_def handle_contract_address_guard)
  qed
next
  case (EditedCommand c)
  with assms show ?thesis
    by (simp add: dispatch_def state_command_handler db_get_def db_delete_def)
next
  case (EditedMessage t)
  with assms show ?thesis
    by (simp add: dispatch_def handle_contract_address_edited)
qed

lemma run_no_empty_record:
  "db_get (users e) k \<noteq> Some [] \<Longrightarrow> db_get (users (run uid us e)) k \<noteq> Some []"
  by (induction us arbitrary: e) (simp_all add: dispatch_no_empty_record)

section \<open>Claims\<close>

text \<open>
  Claim C1, as amended. For a user without a record, two distinct non-empty network names
  \<open>n1\<close>, \<open>n2\<close> and non-empty address sequences \<open>as\<close>, \<open>bs\<close>: after choosing \<open>n1\<close> and
  submitting \<open>as\<close>, then choosing \<open>n2\<close> and submitting \<open>bs\<close>, the record read for the user is
  exactly \<open>{n1: as, n2: bs}\<close>, the entries in that order, the addresses in the order
  submitted, duplicates kept.
\<close>

theorem submit_two_networks:
  assumes "db_get (users e) (str uid) = None"
    and "n1 \<noteq> []" and "n2 \<noteq> []" and "n1 \<noteq> n2" and "as \<noteq> []" and "bs \<noteq> []"
  shows "db_get (users (run uid (CallbackQuery (PyStr n1) # map TextMessage as
                                  @ CallbackQuery (PyStr n2) # map TextMessage bs) e)) (str uid) =
           Some [(n1, as), (n2, bs)]"
  using run_two_rounds [OF assms(1-3) assms(5,6)] \<open>n1 \<noteq> n2\<close> by simp

theorem submit_two_networks_witness:
  "db_get (users env0) (str 7) = None \<and> ''solana'' \<noteq> [] \<and> ''sui'' \<noteq> [] \<and> ''solana'' \<noteq> ''sui'' \<and>
   [''ABC123'', ''ABC123'', ''DEF456''] \<noteq> [] \<and> [''XYZ789''] \<noteq> [] \<and>
   db_get (users (run 7 [CallbackQuery (PyStr ''solana''), TextMessage ''ABC123'',
                          TextMessage ''ABC123'', TextMessage ''DEF456'',
                          CallbackQuery (PyStr ''sui''), TextMessage ''XYZ789''] env0)) (str 7) =
     Some [(''solana'', [''ABC123'', ''ABC123'', ''DEF456'']), (''sui'', [''XYZ789''])]"
proof -
  have absent: "db_get (users env0) (str 7) = None"
    by (simp add: env0_def db_get_def)
  from submit_two_networks [OF absent, of "''solana''" "''sui''"
      "[''ABC123'', ''ABC123'', ''DEF456'']" "[''XYZ789'']"] absent
  show ?thesis
    by simp
qed

text \<open>
  Claim C1 as stated fails when both submissions go to the same network: the record has
  one entry holding both sequences, which is not a mapping of \<open>n1\<close> to the first sequence
  and of \<open>n2\<close> to the second.
\<close>

theorem same_network_twice:
  "db_get (users (run 7 [CallbackQuery (PyStr ''solana''), TextMessage ''A'',
                          CallbackQuery (PyStr ''solana''), TextMessage ''B''] env0)) (str 7) =
     Some [(''solana'', [''A'', ''B''])] \<and>
   db_get (users (run 7 [CallbackQuery (PyStr ''solana''), TextMessage ''A'',
                          CallbackQuery (PyStr ''solana''), TextMessage ''B''] env0)) (str 7) \<noteq>
     Some [(''solana'', [''A'']), (''solana'', [''B''])] \<and>
   tracked (users (run 7 [CallbackQuery (PyStr ''solana''), TextMessage ''A'',
                           CallbackQuery (PyStr ''solana''), TextMessage ''B''] env0)) (str 7) ''solana'' \<noteq>
     [''B'']"
  by (simp add: env0_def dispatch_def handle_network_selection_def handle_contract_address_def
      get_network_def get_or_empty_def db_get_def db_set_def setdefault_append_def setdefault_def
      tracked_def)

text \<open>
  On a new text message in a conversation where no network has been chosen (the key
  \<^verbatim>\<open>'network'\<close> is missing from \<^verbatim>\<open>user_data\<close>), the handler leaves the database and the
  conversation state unchanged, raises nothing, and its only action is the reply asking
  to select a network first with \<^verbatim>\<open>/track\<close>.
\<close>

lemma text_without_selection:
  assumes "user_data e ''network'' = None"
  shows "handle_contract_address uid (Some msg) e =
           \<lparr>state = e, sent = [ReplyText ''Please select a network first using /track.''],
            raised = None\<rparr>"
  using assms by (simp add: handle_contract_address_guard get_network_def select_first_def)

text \<open>
  Claim C2 says that every call of the text handler without a chosen network replies with
  the instruction to select a network first. The handler is also called for an edited
  text message; there \<^verbatim>\<open>update.message\<close> is \<^verbatim>\<open>None\<close>, the first statement raises
  \<^verbatim>\<open>AttributeError\<close> before the guard, and no reply is sent. The database stays unchanged.
\<close>

theorem edited_text_raises:
  "user_data env0 ''network'' = None \<and>
   dispatch 7 (EditedMessage ''ABC123'') env0 =
     \<lparr>state = env0, sent = [], raised = Some AttributeError\<rparr> \<and>
   sent (dispatch 7 (EditedMessage ''ABC123'') env0) \<noteq>
     [ReplyText ''Please select a network first using /track.'']"
  by (simp add: env0_def dispatch_def handle_contract_address_def)

text \<open>
  On a new \<^verbatim>\<open>/status\<close> message: without a record, or with a record that is an empty mapping,
  the reply is "You are not tracking any contracts."; otherwise the reply is one message,
  the heading and, for each network in the stored order, its capitalised name with a colon
  followed by its addresses in the stored order. A network with at least one address has
  each address on a line of its own. No run of the handlers writes an empty mapping
  (\<open>run_no_empty_record\<close>).
\<close>

lemma status_new_message:
  "(db_get (users e) (str uid) = None \<or> db_get (users e) (str uid) = Some [] \<longrightarrow>
      status uid (Some m) e =
        \<lparr>state = e, sent = [ReplyText ''You are not tracking any contracts.''], raised = None\<rparr>) \<and>
   (\<forall>r. db_get (users e) (str uid) = Some r \<and> r \<noteq> [] \<longrightarrow>
      status uid (Some m) e = \<lparr>state = e, sent = [ReplyText (spec_listing r)], raised = None\<rparr>) \<and>
   (\<forall>network addresses. addresses \<noteq> [] \<longrightarrow>
      spec_entry (network, addresses) =
        nl @ capitalize network @ '':'' @ nl @ concat (map (\<lambda>a. a @ nl) addresses))"
proof (intro conjI allI impI)
  assume "db_get (users e) (str uid) = None \<or> db_get (users e) (str uid) = Some []"
  then show "status uid (Some m) e =
      \<lparr>state = e, sent = [ReplyText ''You are not tracking any contracts.''], raised = None\<rparr>"
    by (auto simp: status_def not_tracking_def)
next
  fix r
  assume "db_get (users e) (str uid) = Some r \<and> r \<noteq> []"
  then show "status uid (Some m) e =
      \<lparr>state = e, sent = [ReplyText (spec_listing r)], raised = None\<rparr>"
    by (simp add: status_def spec_listing_def status_loop_eq)
next
  fix network :: string and addresses :: "string list"
  assume "addresses \<noteq> []"
  then show "spec_entry (network, addresses) =
      nl @ capitalize network @ '':'' @ nl @ concat (map (\<lambda>a. a @ nl) addresses)"
    by (simp add: spec_entry_def join_lines)
qed

text \<open>
  The scenario of the spec on new messages: after \<^verbatim>\<open>/track\<close>, the choice of solana and the
  text ABC123 by a user without a record, the reply to \<^verbatim>\<open>/status\<close> has the line "Solana:"
  followed by the line "ABC123".
\<close>

lemma status_after_tracking:
  assumes absent: "db_get (users e) (str uid) = None"
  shows "sent (dispatch uid (Command ''status'')
           (run uid [Command ''track'', CallbackQuery (PyStr ''solana''),
                     TextMessage ''ABC123''] e)) =
         [ReplyText (''Currently tracked contracts:'' @ nl @ nl @ ''Solana:'' @ nl
                     @ ''ABC123'' @ nl)]"
proof -
  let ?e' = "run uid [Command ''track'', CallbackQuery (PyStr ''solana''), TextMessage ''ABC123''] e"
  have "run uid [CallbackQuery (PyStr ''solana''), TextMessage ''ABC123''] e =
          \<lparr>users = db_set (users e) (str uid) [(''solana'', [''ABC123''])],
           user_data = (user_data e)(''network'' \<mapsto> PyStr ''solana'')\<rparr>"
    using run_callback_texts [of "''solana''" "[''ABC123'']" uid e] absent
    by (simp add: get_or_empty_simps setdefault_append_absent)
  moreover have "?e' = run uid [CallbackQuery (PyStr ''solana''), TextMessage ''ABC123''] e"
    by (simp add: dispatch_def state_command_handler)
  ultimately have "db_get (users ?e') (str uid) = Some [(''solana'', [''ABC123''])]"
    by (simp add: db_get_def db_set_def)
  then show ?thesis
    by (simp add: dispatch_def command_handler_def status_def upper_char_def lower_char_def)
qed

text \<open>
  Claim C3 says that \<^verbatim>\<open>status\<close> replies for every user: "not tracking" without a record,
  the listing otherwise. The handler is also called for an edited \<^verbatim>\<open>/status\<close> message;
  there \<^verbatim>\<open>update.message\<close> is \<^verbatim>\<open>None\<close>, the call of \<^verbatim>\<open>update.message.reply_text\<close> raises
  \<^verbatim>\<open>AttributeError\<close>, and neither reply is sent, with a record and without one.
\<close>

theorem edited_status_raises:
  "db_get (users env_tracking) (str 7) = Some [(''solana'', [''ABC123'']), (''sui'', [''XYZ789''])] \<and>
   dispatch 7 (EditedCommand ''status'') env_tracking =
     \<lparr>state = env_tracking, sent = [], raised = Some AttributeError\<rparr> \<and>
   db_get (users env0) (str 7) = None \<and>
   dispatch 7 (EditedCommand ''status'') env0 =
     \<lparr>state = env0, sent = [], raised = Some AttributeError\<rparr>"
  by (simp add: env_tracking_def env0_def str_7 dispatch_def command_handler_def status_def
      db_get_def)

text \<open>
  Claim C4. For a user without a record and a chosen (non-empty) network, a text message
  creates the record: the missing record is read as empty, the address is appended, and
  the full record \<open>{network: [address]}\<close> is written back. A record appears in the database
  only through a successful submission: a single handler call that makes a record appear
  at a key is a text message of that user passing the guard, and a run of one user's
  updates that ends with a record where there was none contains at least one successful
  submission.
\<close>

theorem lazy_creation:
  "(db_get (users e) (str uid) = None \<and> get_network (user_data e) = PyStr network \<and>
    network \<noteq> [] \<longrightarrow>
      handle_contract_address uid (Some address) e =
        \<lparr>state = e\<lparr>users := db_set (users e) (str uid) [(network, [address])]\<rparr>,
         sent = [ReplyText (''Started tracking contract address: '' @ address @ '' on ''
                            @ capitalize network @ ''.'')],
         raised = None\<rparr> \<and>
      db_get (users (state (handle_contract_address uid (Some address) e))) (str uid) =
        Some [(network, [address])]) \<and>
   (\<forall>k u. db_get (users e) k = None \<and> db_get (users (state (dispatch uid u e))) k \<noteq> None \<longrightarrow>
      is_submit u e \<and> k = str uid) \<and>
   (\<forall>k us. db_get (users e) k = None \<and> db_get (users (run uid us e)) k \<noteq> None \<longrightarrow>
      0 < submits uid us e \<and> k = str uid)"
proof (intro conjI allI impI)
  assume a: "db_get (users e) (str uid) = None \<and> get_network (user_data e) = PyStr network \<and>
    network \<noteq> []"
  then have "setdefault_append (get_or_empty (users e) (str uid)) network address =
      [(network, [address])]"
    by (simp add: get_or_empty_simps setdefault_append_absent)
  with a show "handle_contract_address uid (Some address) e =
        \<lparr>state = e\<lparr>users := db_set (users e) (str uid) [(network, [address])]\<rparr>,
         sent = [ReplyText (''Started tracking contract address: '' @ address @ '' on ''
                            @ capitalize network @ ''.'')],
         raised = None\<rparr>"
    by (simp add: handle_contract_address_submit)
  then show "db_get (users (state (handle_contract_address uid (Some address) e))) (str uid) =
        Some [(network, [address])]"
    by (simp add: db_get_def db_set_def)
next
  fix k u
  assume "db_get (users e) k = None \<and> db_get (users (state (dispatch uid u e))) k \<noteq> None"
  then show "is_submit u e" "k = str uid"
    using dispatch_creates [of e k uid u] by simp_all
next
  fix k us
  assume "db_get (users e) k = None \<and> db_get (users (run uid us e)) k \<noteq> None"
  then show "0 < submits uid us e" "k = str uid"
    using run_creates [of e k uid us] by simp_all
qed

theorem lazy_creation_witness:
  "db_get (users env_selected) (str 7) = None \<and>
   get_network (user_data env_selected) = PyStr ''solana'' \<and> ''solana'' \<noteq> [] \<and>
   db_get (users (state (handle_contract_address 7 (Some ''ABC123'') env_selected))) (str 7) =
     Some [(''solana'', [''ABC123''])] \<and>
   db_get (users (state (dispatch 7 (TextMessage ''ABC123'') env_selected))) ''7'' \<noteq> None \<and>
   is_submit (TextMessage ''ABC123'') env_selected \<and>
   db_get (users (run 7 [Command ''start'', TextMessage ''ABC123''] env_selected)) ''7'' \<noteq> None \<and>
   0 < submits 7 [Command ''start'', TextMessage ''ABC123''] env_selected"
proof -
  have absent: "db_get (users env_selected) k = None" for k
    by (simp add: env_selected_def db_get_def)
  have sel: "get_network (user_data env_selected) = PyStr ''solana''"
    by (simp add: env_selected_def get_network_def)
  have "state (handle_contract_address 7 (Some ''ABC123'') env_selected) =
          env_selected\<lparr>users := db_set (users env_selected) ''7'' [(''solana'', [''ABC123''])]\<rparr>"
    using lazy_creation [of env_selected 7 "''solana''" "''ABC123''"] absent sel
    by (simp add: str_7)
  then show ?thesis
    using lazy_creation [of env_selected 7 "''solana''" "''ABC123''"] absent sel
    by (simp add: str_7 dispatch_def state_command_handler db_get_def db_set_def)
qed

text \<open>
  On a new \<^verbatim>\<open>/stop\<close> message, for every user with or without a record: the handler deletes
  the user's key without looking at it, raises nothing and replies "Stopped tracking all
  contracts.". A second \<^verbatim>\<open>/stop\<close> right after the first gives the same reply, raises nothing
  and leaves the state as the first left it. Without a record the state does not change.
\<close>

lemma stop_new_message:
  "stop uid (Some m) e =
     \<lparr>state = e\<lparr>users := db_delete (users e) (str uid)\<rparr>,
      sent = [ReplyText ''Stopped tracking all contracts.''], raised = None\<rparr> \<and>
   stop uid (Some m') (state (stop uid (Some m) e)) =
     \<lparr>state = state (stop uid (Some m) e),
      sent = [ReplyText ''Stopped tracking all contracts.''], raised = None\<rparr> \<and>
   (db_get (users e) (str uid) = None \<longrightarrow>
      stop uid (Some m) e =
        \<lparr>state = e, sent = [ReplyText ''Stopped tracking all contracts.''], raised = None\<rparr>)"
proof -
  have "db_delete s k = s" if "db_get s k = None" for s :: store and k
    using that by (auto simp: db_delete_def db_get_def)
  then show ?thesis
    by (simp add: stop_def db_delete_def db_get_def)
qed

text \<open>
  Claim C5 says that \<^verbatim>\<open>stop\<close> never faults and always replies with the confirmation, also
  when repeated. The handler is also called for an edited \<^verbatim>\<open>/stop\<close> message; there
  \<^verbatim>\<open>update.message\<close> is \<^verbatim>\<open>None\<close>: the deletion is done, then the call of
  \<^verbatim>\<open>update.message.reply_text\<close> raises \<^verbatim>\<open>AttributeError\<close> and no confirmation is sent, for a
  user with a record and for one without.
\<close>

theorem edited_stop_raises:
  "dispatch 7 (EditedCommand ''stop'') env_tracking =
     \<lparr>state = env_tracking\<lparr>users := db_delete (users env_tracking) (str 7)\<rparr>,
      sent = [], raised = Some AttributeError\<rparr> \<and>
   db_get (users (state (dispatch 7 (EditedCommand ''stop'') env_tracking))) (str 7) = None \<and>
   db_get (users env0) (str 7) = None \<and>
   raised (dispatch 7 (EditedCommand ''stop'') env0) = Some AttributeError \<and>
   sent (dispatch 7 (EditedCommand ''stop'') env0) = []"
  by (simp add: env0_def dispatch_def command_handler_def stop_def db_get_def db_delete_def)

text \<open>
  Claim C6. Whatever the database holds, a read of a key right after its deletion finds
  nothing: after \<^verbatim>\<open>stop\<close>, on a new or an edited message, the user's key is absent, not
  mapped to an empty record, and a new \<^verbatim>\<open>/status\<close> gets the "not tracking" reply.
\<close>

theorem delete_then_read:
  "db_get (db_delete s key) key = None \<and>
   db_get (users (state (stop uid message e))) (str uid) = None \<and>
   sent (status uid (Some m) (state (stop uid message e))) =
     [ReplyText ''You are not tracking any contracts.'']"
  by (simp add: db_get_def db_delete_def stop_def status_def not_tracking_def)

text \<open>
  Claim C7. The network selection stores the chosen network in \<^verbatim>\<open>user_data\<close>, and a
  successful submission does not clear it: after a selection of a non-empty network and
  one submitted address the selection is still there, and a second text message appends
  a second address to the same network of the user's record.
\<close>

theorem selection_persists:
  assumes "s \<noteq> []"
  shows "user_data (state (handle_network_selection (PyStr s) e)) ''network'' = Some (PyStr s) \<and>
         user_data (state (handle_contract_address uid (Some a1)
                      (state (handle_network_selection (PyStr s) e)))) ''network'' = Some (PyStr s) \<and>
         tracked (users (state (handle_contract_address uid (Some a1)
                      (state (handle_network_selection (PyStr s) e))))) (str uid) s =
           tracked (users e) (str uid) s @ [a1] \<and>
         tracked (users (state (handle_contract_address uid (Some a2)
                    (state (handle_contract_address uid (Some a1)
                      (state (handle_network_selection (PyStr s) e))))))) (str uid) s =
           tracked (users e) (str uid) s @ [a1, a2]"
proof -
  let ?e1 = "state (handle_network_selection (PyStr s) e)"
  let ?e2 = "state (handle_contract_address uid (Some a1) ?e1)"
  have ud1: "user_data ?e1 ''network'' = Some (PyStr s)"
    by (simp add: handle_network_selection_state)
  have sel1: "get_network (user_data ?e1) = PyStr s"
    by (rule get_network_selected)
  have ud2: "user_data ?e2 = user_data ?e1"
    using tracked_submit(3) [OF sel1 assms] .
  then have sel2: "get_network (user_data ?e2) = PyStr s"
    using sel1 by simp
  have t1: "tracked (users ?e2) (str uid) s = tracked (users e) (str uid) s @ [a1]"
    using tracked_submit(2) [OF sel1 assms, of uid a1] by (simp add: tracked_selection)
  have t2: "tracked (users (state (handle_contract_address uid (Some a2) ?e2))) (str uid) s =
              tracked (users ?e2) (str uid) s @ [a2]"
    using tracked_submit(2) [OF sel2 assms] .
  from ud1 ud2 t1 t2 show ?thesis
    by simp
qed

theorem selection_persists_witness:
  "''solana'' \<noteq> [] \<and>
   user_data (state (handle_contract_address 7 (Some ''ABC123'')
       (state (handle_network_selection (PyStr ''solana'') env0)))) ''network'' =
     Some (PyStr ''solana'') \<and>
   tracked (users (state (handle_contract_address 7 (Some ''DEF456'')
       (state (handle_contract_address 7 (Some ''ABC123'')
          (state (handle_network_selection (PyStr ''solana'') env0))))))) (str 7) ''solana'' =
     [''ABC123'', ''DEF456'']"
proof -
  have "tracked (users env0) (str 7) ''solana'' = []"
    by (simp add: tracked_def env0_def db_get_def)
  with selection_persists [of "''solana''" env0 7 "''ABC123''" "''DEF456''"] show ?thesis
    by simp
qed

text \<open>
  Claim C8, as amended. For every non-empty string \<open>s\<close> delivered as the data of the
  selection callback, whether or not it is one of the two button values, the selection
  stores \<open>s\<close> in \<^verbatim>\<open>user_data\<close> and the next text message stores its address under the key \<open>s\<close>
  of the user's record, after the addresses already there: no set of network names is
  enforced.
\<close>

theorem any_key_accepted:
  assumes "s \<noteq> []"
  shows "user_data (state (handle_network_selection (PyStr s) e)) ''network'' = Some (PyStr s) \<and>
         (\<exists>r. db_get (users (state (handle_contract_address uid (Some a)
                       (state (handle_network_selection (PyStr s) e))))) (str uid) = Some r \<and>
              map_of r s = Some (tracked (users e) (str uid) s @ [a]))"
proof -
  let ?e1 = "state (handle_network_selection (PyStr s) e)"
  have sel1: "get_network (user_data ?e1) = PyStr s"
    by (rule get_network_selected)
  from tracked_submit(1) [OF sel1 assms, of uid a] show ?thesis
    by (simp add: tracked_selection) (simp add: handle_network_selection_state)
qed

theorem any_key_accepted_witness:
  "''base-mainnet'' \<noteq> [] \<and>
   user_data (state (handle_network_selection (PyStr ''base-mainnet'') env0)) ''network'' =
     Some (PyStr ''base-mainnet'') \<and>
   (\<exists>r. db_get (users (state (handle_contract_address 7 (Some ''0xABC'')
              (state (handle_network_selection (PyStr ''base-mainnet'') env0))))) (str 7) = Some r \<and>
        map_of r ''base-mainnet'' = Some [''0xABC''])"
proof -
  have "tracked (users env0) (str 7) ''base-mainnet'' = []"
    by (simp add: tracked_def env0_def db_get_def)
  with any_key_accepted [of "''base-mainnet''" env0 7 "''0xABC''"] show ?thesis
    by simp
qed

text \<open>
  Claim C8 as stated fails for the empty string: the selection stores it, but the guard
  \<^verbatim>\<open>if not network\<close> of the next text message takes it for no selection, so nothing is
  stored and the reply asks to select a network first.
\<close>

theorem empty_key_rejected:
  "user_data (state (handle_network_selection (PyStr []) env0)) ''network'' = Some (PyStr []) \<and>
   sent (handle_contract_address 7 (Some ''ABC123'')
           (state (handle_network_selection (PyStr []) env0))) =
     [ReplyText ''Please select a network first using /track.''] \<and>
   db_get (users (state (handle_contract_address 7 (Some ''ABC123'')
             (state (handle_network_selection (PyStr []) env0))))) (str 7) = None"
  by (simp add: env0_def handle_network_selection_def handle_contract_address_def get_network_def
      select_first_def db_get_def)

text \<open>
  On a new message: \<^verbatim>\<open>track\<close> replies with the prompt and a keyboard of exactly two
  buttons, Solana and Sui, with different callback data; \<^verbatim>\<open>start\<close> and \<^verbatim>\<open>help_command\<close>
  reply with their fixed texts. On every update, new or edited, the three handlers leave
  the database and \<^verbatim>\<open>user_data\<close> as they were.
\<close>

lemma commands_new_message:
  "track (Some m) e =
     \<lparr>state = e,
      sent = [ReplyTextMarkup ''Which network would you like to track?''
                [[(''Solana'', ''solana''), (''Sui'', ''sui'')]]],
      raised = None\<rparr> \<and>
   start (Some m) e =
     \<lparr>state = e,
      sent = [ReplyText ''Welcome to the Blockchain Tracker Bot! Use /track to monitor transactions. Use /help for other commands.''],
      raised = None\<rparr> \<and>
   help_command (Some m) e =
     \<lparr>state = e,
      sent = [ReplyText (''/start - Start the bot'' @ nl
                @ ''/track - Start tracking a contract address'' @ nl
                @ ''/status - View tracked addresses'' @ nl
                @ ''/stop - Stop tracking a contract'' @ nl
                @ ''/help - Show help message'')],
      raised = None\<rparr> \<and>
   state (track message e) = e \<and> state (start message e) = e \<and>
   state (help_command message e) = e"
  by (simp add: track_def start_def help_command_def)

text \<open>
  Claim C9 says that \<^verbatim>\<open>track\<close>, \<^verbatim>\<open>start\<close> and \<^verbatim>\<open>help_command\<close> reply on every inbound
  event. The handlers are also called for an edited \<^verbatim>\<open>/track\<close>, \<^verbatim>\<open>/start\<close> or \<^verbatim>\<open>/help\<close>
  message; there \<^verbatim>\<open>update.message\<close> is \<^verbatim>\<open>None\<close>, the call of \<^verbatim>\<open>update.message.reply_text\<close>
  raises \<^verbatim>\<open>AttributeError\<close>, and neither the prompt with its two choices nor the fixed
  texts are sent. The state stays unchanged.
\<close>

theorem edited_commands_raise:
  "dispatch 7 (EditedCommand ''track'') env0 =
     \<lparr>state = env0, sent = [], raised = Some AttributeError\<rparr> \<and>
   dispatch 7 (EditedCommand ''start'') env0 =
     \<lparr>state = env0, sent = [], raised = Some AttributeError\<rparr> \<and>
   dispatch 7 (EditedCommand ''help'') env0 =
     \<lparr>state = env0, sent = [], raised = Some AttributeError\<rparr>"
  by (simp add: dispatch_def command_handler_def track_def start_def help_command_def)

text \<open>
  Claim C10. \<^verbatim>\<open>status\<close> decides by the truthiness of what it read: a user whose record
  exists and is an empty mapping gets the same "not tracking" reply as a user without a
  record, and no listing. On any update, new or edited, the outcome for the empty mapping
  is the outcome for the missing record.
\<close>

theorem empty_record_status:
  assumes "db_get (users e) (str uid) = Some []"
  shows "status uid (Some m) e =
           \<lparr>state = e, sent = [ReplyText ''You are not tracking any contracts.''],
            raised = None\<rparr> \<and>
         sent (status uid message e) =
           sent (status uid message (e\<lparr>users := db_delete (users e) (str uid)\<rparr>)) \<and>
         raised (status uid message e) =
           raised (status uid message (e\<lparr>users := db_delete (users e) (str uid)\<rparr>))"
  using assms by (cases message) (simp_all add: status_def not_tracking_def db_get_def db_delete_def)

theorem empty_record_status_witness:
  "db_get (users env_empty_record2) (str 42) = Some [] \<and>
   status 42 (Some ''/status'') env_empty_record2 =
     \<lparr>state = env_empty_record2, sent = [ReplyText ''You are not tracking any contracts.''],
      raised = None\<rparr>"
proof -
  have "db_get (users env_empty_record2) (str 42) = Some []"
    by (simp add: env_empty_record2_def db_get_def str_42)
  with empty_record_status [of env_empty_record2 42 "''/status''"] show ?thesis
    by simp
qed

end
